theory Spec2Isabelle
  imports Main
begin

section \<open>Data model\<close>

text \<open>
  The repository holds three React function components that wrap the browser's camera
  API: \<open>SimpleCameraComponent\<close> of \<^verbatim>\<open>src/App.tsx\<close> (prefix \<open>App_\<close> below),
  \<open>CameraComponent\<close> of the second file (prefix \<open>Cam_\<close>) and the small
  \<open>SimpleCameraComponent\<close> that follows it in the same file (prefix \<open>Mini_\<close>).

  The string unions \<^verbatim>\<open>'user' | 'environment'\<close> and
  \<^verbatim>\<open>'granted' | 'denied' | 'prompt'\<close> are datatypes.
\<close>

datatype FacingMode = user | environment

datatype PermissionState = granted | denied | prompt

text \<open>
  A \<open>MediaStream\<close> is known to the components only through \<^verbatim>\<open>getTracks()\<close>, so it is the
  list of its tracks; a track is an identifier handed out by the host.
\<close>

type_synonym track = nat
type_synonym MediaStream = "track list"

text \<open>
  The \<^verbatim>\<open>video\<close> member of the three constraint shapes of the source:
  \<^verbatim>\<open>{ facingMode }\<close> (App.tsx), \<^verbatim>\<open>{ facingMode, width, height, aspectRatio }\<close>
  (the ideal/max pairs of CameraComponent, the aspect ratio 16/9 kept as the pair of
  its numerator and denominator) and the plain boolean of \<open>BasicConstraints\<close>.
\<close>

datatype video_constraints =
    FacingOnly FacingMode
  | Hinted FacingMode "nat \<times> nat" "nat \<times> nat" "nat \<times> nat"
  | VideoBool bool

record MediaStreamConstraints =
  video :: video_constraints
  audio :: bool

text \<open>
  The host is a test double. It answers the \<open>k\<close>-th permission query and the \<open>k\<close>-th
  stream request from a script (\<open>Inl name\<close> is a rejection with \<^verbatim>\<open>error.name = name\<close>,
  \<open>Inr n\<close> grants a stream of \<open>n\<close> fresh tracks), and records what the components do
  in \<open>events\<close>, oldest first. \<open>Query\<close> records that \<open>startCamera\<close> of App.tsx
  evaluated \<^verbatim>\<open>navigator.permissions.query(...)\<close>: in a browser without the Permissions
  API that expression throws a \<^verbatim>\<open>TypeError\<close> instead of calling anything, which is the
  script answer \<open>Inl ''TypeError''\<close>.
\<close>

datatype event =
    Query
  | Request MediaStreamConstraints
  | Grant MediaStream
  | Stop track

record host =
  hasCamera :: bool
  permissions_query :: "nat \<Rightarrow> string + PermissionState"
  getUserMedia_reply :: "nat \<Rightarrow> MediaStreamConstraints \<Rightarrow> string + nat"
  play_reply :: "nat \<Rightarrow> bool"

text \<open>
  What the components mutate outside their own React state: the recorded calls, the
  tracks that are live (granted and not stopped), the tracks whose \<^verbatim>\<open>enabled\<close> flag was
  cleared, the next fresh track, and \<^verbatim>\<open>videoRef.current\<close> (\<open>None\<close> when the video
  element is not mounted, otherwise its \<^verbatim>\<open>srcObject\<close>).
\<close>

record world =
  events :: "event list"
  live :: "track list"
  disabled :: "track list"
  next_track :: track
  videoRef :: "MediaStream option option"

text \<open>The \<^verbatim>\<open>useState\<close> cells of \<open>SimpleCameraComponent\<close> and \<open>CameraComponent\<close>.\<close>

record component =
  stream :: "MediaStream option"
  isActive :: bool
  error :: string
  facingMode :: FacingMode
  isLoading :: bool
  permissions :: PermissionState

section \<open>Host calls\<close>

fun isRequest :: "event \<Rightarrow> bool" where
  "isRequest (Request c) = True"
| "isRequest e = False"

fun isQuery :: "event \<Rightarrow> bool" where
  "isQuery Query = True"
| "isQuery e = False"

fun isGrant :: "event \<Rightarrow> bool" where
  "isGrant (Grant ms) = True"
| "isGrant e = False"

definition nreq :: "world \<Rightarrow> nat" where
  "nreq w = length (filter isRequest (events w))"

definition nquery :: "world \<Rightarrow> nat" where
  "nquery w = length (filter isQuery (events w))"

text \<open>\<^verbatim>\<open>track.stop()\<close>, and App.tsx's \<^verbatim>\<open>track.stop(); track.enabled = false\<close>.\<close>

definition stop :: "track \<Rightarrow> world \<Rightarrow> world" where
  "stop t w = w\<lparr>events := events w @ [Stop t], live := removeAll t (live w)\<rparr>"

definition stop_and_disable :: "track \<Rightarrow> world \<Rightarrow> world" where
  "stop_and_disable t w = (stop t w)\<lparr>disabled := List.insert t (disabled w)\<rparr>"

text \<open>\<^verbatim>\<open>navigator.permissions.query({ name: 'camera' })\<close>\<close>

definition query :: "host \<Rightarrow> world \<Rightarrow> (string + PermissionState) \<times> world" where
  "query h w = (permissions_query h (nquery w), w\<lparr>events := events w @ [Query]\<rparr>)"

text \<open>\<^verbatim>\<open>navigator.mediaDevices.getUserMedia(constraints)\<close>\<close>

definition getUserMedia ::
  "host \<Rightarrow> MediaStreamConstraints \<Rightarrow> world \<Rightarrow> (string + MediaStream) \<times> world" where
  "getUserMedia h c w =
     (case getUserMedia_reply h (nreq w) c of
        Inl name \<Rightarrow> (Inl name, w\<lparr>events := events w @ [Request c]\<rparr>)
      | Inr n \<Rightarrow>
          (let ms = [next_track w ..< next_track w + n]
           in (Inr ms, w\<lparr>events := events w @ [Request c, Grant ms],
                          live := live w @ ms,
                          next_track := next_track w + n\<rparr>)))"

section \<open>SimpleCameraComponent (App.tsx)\<close>

text \<open>
  A handler is a closure of the render that created it: the state variables it reads
  (\<open>stream\<close>, \<open>facingMode\<close>, \<open>isActive\<close>) are the constants of that render, and a setter
  only schedules the value of the next render. So \<open>startCamera\<close> takes the render's
  snapshot \<open>snap\<close>, from which it reads, and the pending next state, which its setters
  update. Called from a button, both are the current state; called from
  \<open>switchCamera\<close>, the pending state already holds the toggled facing mode while the
  snapshot does not.
\<close>

definition App_getConstraints :: "FacingMode \<Rightarrow> MediaStreamConstraints" where
  "App_getConstraints facing = \<lparr>video = FacingOnly facing, audio = False\<rparr>"

text \<open>The \<^verbatim>\<open>catch\<close> block of \<open>startCamera\<close>.\<close>

definition App_catch :: "string \<Rightarrow> component \<Rightarrow> component" where
  "App_catch name s =
     (if name = ''NotAllowedError'' then
        s\<lparr>error := ''Camera access denied. Please allow camera permissions.'',
          permissions := denied\<rparr>
      else if name = ''NotFoundError'' then
        s\<lparr>error := ''No camera found on this device.''\<rparr>
      else if name = ''NotReadableError'' then
        s\<lparr>error := ''Camera is already in use by another application.''\<rparr>
      else
        s\<lparr>error := ''Unable to access camera. Please try again.''\<rparr>)"

fun App_startCamera_in ::
  "host \<Rightarrow> component \<Rightarrow> component \<times> world \<Rightarrow> component \<times> world" where
  "App_startCamera_in h snap (s, w) =
     (if \<not> hasCamera h then (s\<lparr>error := ''Camera not supported on this device''\<rparr>, w)
      else
        let s1 = s\<lparr>isLoading := True, error := ''''\<rparr> in
        case query h w of
          (Inl name, w1) \<Rightarrow> ((App_catch name s1)\<lparr>isLoading := False\<rparr>, w1)
        | (Inr state, w1) \<Rightarrow>
            let s2 = s1\<lparr>permissions := state\<rparr> in
            if state = denied then
              (s2\<lparr>error := ''Camera access denied. Please allow camera permissions.'',
                  isLoading := False\<rparr>, w1)
            else
              let w2 = (case stream snap of
                          None \<Rightarrow> w1
                        | Some ms \<Rightarrow> fold stop_and_disable ms w1)
              in
              (case getUserMedia h (App_getConstraints (facingMode snap)) w2 of
                 (Inl name, w3) \<Rightarrow> ((App_catch name s2)\<lparr>isLoading := False\<rparr>, w3)
               | (Inr mediaStream, w3) \<Rightarrow>
                   let s3 = s2\<lparr>stream := Some mediaStream, isActive := True,
                               permissions := granted\<rparr>
                   in
                   (case videoRef w3 of
                      None \<Rightarrow> (s3\<lparr>isLoading := False\<rparr>, w3)
                    | Some src \<Rightarrow>
                        let w4 = w3\<lparr>videoRef := Some (Some mediaStream)\<rparr> in
                        if play_reply h (nreq w3) then (s3\<lparr>isLoading := False\<rparr>, w4)
                        else (s3\<lparr>isLoading := False,
                                 error := ''Failed to play video stream.''\<rparr>, w4))))"

definition App_startCamera :: "host \<Rightarrow> component \<times> world \<Rightarrow> component \<times> world" where
  "App_startCamera h sw = App_startCamera_in h (fst sw) sw"

fun App_stopCamera :: "component \<times> world \<Rightarrow> component \<times> world" where
  "App_stopCamera (s, w) =
     (let (s1, w1) = (case stream s of
                        None \<Rightarrow> (s, w)
                      | Some ms \<Rightarrow> (s\<lparr>stream := None\<rparr>, fold stop_and_disable ms w));
          w2 = (case videoRef w1 of
                  None \<Rightarrow> w1
                | Some src \<Rightarrow> w1\<lparr>videoRef := Some None\<rparr>)
      in (s1\<lparr>isActive := False, error := ''''\<rparr>, w2))"

fun App_switchCamera :: "host \<Rightarrow> component \<times> world \<Rightarrow> component \<times> world" where
  "App_switchCamera h (s, w) =
     (let newFacingMode = (if facingMode s = user then environment else user);
          s1 = s\<lparr>facingMode := newFacingMode\<rparr>
      in if isActive s then App_startCamera_in h s (s1, w) else (s1, w))"

text \<open>
  The cleanup of the effect with dependency \<^verbatim>\<open>[stream]\<close>; at unmount it runs with the
  stream of the last render.
\<close>

definition cleanup :: "MediaStream option \<Rightarrow> world \<Rightarrow> world" where
  "cleanup st w = (case st of None \<Rightarrow> w | Some ms \<Rightarrow> fold stop ms w)"

definition App_unmount :: "component \<times> world \<Rightarrow> world" where
  "App_unmount sw = cleanup (stream (fst sw)) (snd sw)"

section \<open>CameraComponent (second file)\<close>

definition Cam_getConstraints :: "FacingMode \<Rightarrow> MediaStreamConstraints" where
  "Cam_getConstraints facing =
     \<lparr>video = Hinted facing (1280, 1920) (720, 1080) (16, 9), audio = False\<rparr>"

definition basicConstraints :: MediaStreamConstraints where
  "basicConstraints = \<lparr>video = VideoBool True, audio = False\<rparr>"

text \<open>\<^verbatim>\<open>if (videoRef.current) videoRef.current.srcObject = ...\<close>\<close>

definition set_srcObject :: "MediaStream option \<Rightarrow> world \<Rightarrow> world" where
  "set_srcObject src w =
     (case videoRef w of None \<Rightarrow> w | Some old \<Rightarrow> w\<lparr>videoRef := Some src\<rparr>)"

fun Cam_startCamera_in ::
  "host \<Rightarrow> component \<Rightarrow> component \<times> world \<Rightarrow> component \<times> world" where
  "Cam_startCamera_in h snap (s, w) =
     (if \<not> hasCamera h then (s\<lparr>error := ''Camera not supported on this device''\<rparr>, w)
      else
        let s1 = s\<lparr>isLoading := True, error := ''''\<rparr>;
            w1 = (case stream snap of None \<Rightarrow> w | Some ms \<Rightarrow> fold stop ms w)
        in
        case getUserMedia h (Cam_getConstraints (facingMode snap)) w1 of
          (Inr mediaStream, w2) \<Rightarrow>
            (s1\<lparr>stream := Some mediaStream, isActive := True, permissions := granted,
                isLoading := False\<rparr>,
             set_srcObject (Some mediaStream) w2)
        | (Inl name, w2) \<Rightarrow>
            if name = ''NotAllowedError'' then
              (s1\<lparr>error := ''Camera access denied. Please allow camera permissions.'',
                  permissions := denied, isLoading := False\<rparr>, w2)
            else if name = ''NotFoundError'' then
              (s1\<lparr>error := ''No camera found on this device.'', isLoading := False\<rparr>, w2)
            else if name = ''NotReadableError'' then
              (s1\<lparr>error := ''Camera is already in use by another application.'',
                  isLoading := False\<rparr>, w2)
            else if name = ''OverconstrainedError'' then
              (let s2 = s1\<lparr>error :=
                          ''Camera constraints not supported. Trying basic settings...''\<rparr>
               in case getUserMedia h basicConstraints w2 of
                    (Inr basicStream, w3) \<Rightarrow>
                      (s2\<lparr>stream := Some basicStream, isActive := True, error := '''',
                          isLoading := False\<rparr>,
                       set_srcObject (Some basicStream) w3)
                  | (Inl basicErr, w3) \<Rightarrow>
                      (s2\<lparr>error := ''Unable to access camera with any settings.'',
                          isLoading := False\<rparr>, w3))
            else
              (s1\<lparr>error := ''Unable to access camera. Please try again.'',
                  isLoading := False\<rparr>, w2))"

definition Cam_startCamera :: "host \<Rightarrow> component \<times> world \<Rightarrow> component \<times> world" where
  "Cam_startCamera h sw = Cam_startCamera_in h (fst sw) sw"

fun Cam_stopCamera :: "component \<times> world \<Rightarrow> component \<times> world" where
  "Cam_stopCamera (s, w) =
     (let (s1, w1) = (case stream s of
                        None \<Rightarrow> (s, w)
                      | Some ms \<Rightarrow> (s\<lparr>stream := None\<rparr>, fold stop ms w))
      in (s1\<lparr>isActive := False\<rparr>, set_srcObject None w1))"

fun Cam_switchCamera :: "host \<Rightarrow> component \<times> world \<Rightarrow> component \<times> world" where
  "Cam_switchCamera h (s, w) =
     (let newFacingMode = (if facingMode s = user then environment else user);
          s1 = s\<lparr>facingMode := newFacingMode\<rparr>
      in if isActive s then Cam_startCamera_in h s (s1, w) else (s1, w))"

definition Cam_unmount :: "component \<times> world \<Rightarrow> world" where
  "Cam_unmount sw = cleanup (stream (fst sw)) (snd sw)"

section \<open>The small SimpleCameraComponent (second file)\<close>

text \<open>
  At unmount two cleanups run, in the order of their effects: the one of the mount
  effect (dependencies \<^verbatim>\<open>[]\<close>), whose closure holds the \<open>stream\<close> of the first render,
  \<^verbatim>\<open>null\<close>; then the one of the \<^verbatim>\<open>[stream]\<close> effect with the stream of the last render.
\<close>

definition Mini_unmount :: "MediaStream option \<Rightarrow> world \<Rightarrow> world" where
  "Mini_unmount st w = cleanup st (cleanup None w)"

declare App_startCamera_in.simps [simp del]
declare Cam_startCamera_in.simps [simp del]
declare App_stopCamera.simps [simp del]
declare Cam_stopCamera.simps [simp del]
declare App_switchCamera.simps [simp del]
declare Cam_switchCamera.simps [simp del]

section \<open>Observations on the recorded calls\<close>

text \<open>\<^verbatim>\<open>getTracks()\<close> of a stream variable that may be \<^verbatim>\<open>null\<close>.\<close>

fun tracks :: "MediaStream option \<Rightarrow> track list" where
  "tracks None = []"
| "tracks (Some ms) = ms"

text \<open>The calls the host recorded between the world \<open>w\<close> and a later world \<open>w'\<close>.\<close>

definition new_events :: "world \<Rightarrow> world \<Rightarrow> event list" where
  "new_events w w' = drop (length (events w)) (events w')"

fun requests :: "event list \<Rightarrow> MediaStreamConstraints list" where
  "requests [] = []"
| "requests (Request c # es) = c # requests es"
| "requests (e # es) = requests es"

fun stops :: "event list \<Rightarrow> track list" where
  "stops [] = []"
| "stops (Stop t # es) = t # stops es"
| "stops (e # es) = stops es"

definition toggle :: "FacingMode \<Rightarrow> FacingMode" where
  "toggle f = (if f = user then environment else user)"

text \<open>
  A monitor for exclusive use of the hardware. It replays the recorded calls, keeping
  the tracks that are live, and stays true as long as every stream request and every
  grant happens while no track is live.
\<close>

fun observe :: "track list \<times> bool \<Rightarrow> event \<Rightarrow> track list \<times> bool" where
  "observe (lv, ok) Query = (lv, ok)"
| "observe (lv, ok) (Request c) = (lv, ok \<and> lv = [])"
| "observe (lv, ok) (Grant ms) = (lv @ ms, ok \<and> lv = [])"
| "observe (lv, ok) (Stop t) = (removeAll t lv, ok)"

definition exclusive :: "event list \<Rightarrow> bool" where
  "exclusive es = snd (foldl observe ([], True) es)"

text \<open>The initial values of the \<^verbatim>\<open>useState\<close> cells, and a host that has recorded nothing.\<close>

definition initial :: component where
  "initial = \<lparr>stream = None, isActive = False, error = '''', facingMode = user,
               isLoading = False, permissions = prompt\<rparr>"

definition fresh_world :: "MediaStream option option \<Rightarrow> world" where
  "fresh_world v = \<lparr>events = [], live = [], disabled = [], next_track = 0, videoRef = v\<rparr>"

subsection \<open>Concrete hosts and states\<close>

text \<open>A host that grants every request a one-track stream.\<close>

definition granting_host :: host where
  "granting_host = \<lparr>hasCamera = True, permissions_query = (\<lambda>k. Inr prompt),
     getUserMedia_reply = (\<lambda>k c. Inr 1), play_reply = (\<lambda>k. True)\<rparr>"

text \<open>A host that rejects every request with the given error name.\<close>

definition rejecting_host :: "string \<Rightarrow> host" where
  "rejecting_host name = \<lparr>hasCamera = True, permissions_query = (\<lambda>k. Inr prompt),
     getUserMedia_reply = (\<lambda>k c. Inl name), play_reply = (\<lambda>k. True)\<rparr>"

text \<open>A host whose permission query answers \<open>p\<close> and that rejects every request.\<close>

definition querying_host :: "PermissionState \<Rightarrow> string \<Rightarrow> host" where
  "querying_host p name = \<lparr>hasCamera = True, permissions_query = (\<lambda>k. Inr p),
     getUserMedia_reply = (\<lambda>k c. Inl name), play_reply = (\<lambda>k. True)\<rparr>"

text \<open>
  A host that rejects the resolution-hinted request as over-constrained and grants the
  basic one.
\<close>

definition overconstrained_host :: host where
  "overconstrained_host = \<lparr>hasCamera = True, permissions_query = (\<lambda>k. Inr prompt),
     getUserMedia_reply =
       (\<lambda>k c. if c = basicConstraints then Inr 1 else Inl ''OverconstrainedError''),
     play_reply = (\<lambda>k. True)\<rparr>"

text \<open>
  A host that rejects the resolution-hinted request as over-constrained and the basic
  one as not allowed.
\<close>

definition fallback_denied_host :: host where
  "fallback_denied_host = \<lparr>hasCamera = True, permissions_query = (\<lambda>k. Inr prompt),
     getUserMedia_reply =
       (\<lambda>k c. if c = basicConstraints then Inl ''NotAllowedError''
              else Inl ''OverconstrainedError''),
     play_reply = (\<lambda>k. True)\<rparr>"

text \<open>A browser without the camera API, and a host whose permission query throws.\<close>

definition no_camera_host :: host where
  "no_camera_host = \<lparr>hasCamera = False, permissions_query = (\<lambda>k. Inr prompt),
     getUserMedia_reply = (\<lambda>k c. Inr 1), play_reply = (\<lambda>k. True)\<rparr>"

definition query_throwing_host :: "string \<Rightarrow> host" where
  "query_throwing_host name = \<lparr>hasCamera = True, permissions_query = (\<lambda>k. Inl name),
     getUserMedia_reply = (\<lambda>k c. Inr 1), play_reply = (\<lambda>k. True)\<rparr>"

text \<open>An active session on the front camera: one live track, bound to the video element.\<close>

definition active_front :: "component \<times> world" where
  "active_front =
     (\<lparr>stream = Some [0], isActive = True, error = '''', facingMode = user,
       isLoading = False, permissions = granted\<rparr>,
      \<lparr>events = [], live = [0], disabled = [], next_track = 1,
       videoRef = Some (Some [0])\<rparr>)"

text \<open>No session, with the message of an earlier failed acquire still shown.\<close>

definition idle_with_error :: "component \<times> world" where
  "idle_with_error =
     (\<lparr>stream = None, isActive = False, error = ''No camera found on this device.'',
       facingMode = user, isLoading = False, permissions = prompt\<rparr>,
      fresh_world None)"

section \<open>Calls that overlap\<close>

text \<open>
  \<open>startCamera\<close> is an \<^verbatim>\<open>async\<close> function. It runs up to an \<^verbatim>\<open>await\<close>, hands control
  back to the event loop, and goes on when the host settles the awaited promise; other
  handlers can run in between. This section splits the host calls and the handlers at
  their \<^verbatim>\<open>await\<close>s. Run with nothing in between, the pieces are the functions of the
  sections above (lemmas \<open>App_startCamera_in_phases\<close> and \<open>Cam_startCamera_in_phases\<close>).
\<close>

subsection \<open>The two halves of a host call\<close>

text \<open>
  Calling \<^verbatim>\<open>getUserMedia\<close> records the request and gives its number; the host settles
  request \<open>k\<close> later, with the \<open>k\<close>-th answer of its script.
\<close>

definition request_stream :: "MediaStreamConstraints \<Rightarrow> world \<Rightarrow> nat \<times> world" where
  "request_stream c w = (nreq w, w\<lparr>events := events w @ [Request c]\<rparr>)"

definition settle_stream ::
  "host \<Rightarrow> nat \<Rightarrow> MediaStreamConstraints \<Rightarrow> world \<Rightarrow> (string + MediaStream) \<times> world" where
  "settle_stream h k c w =
     (case getUserMedia_reply h k c of
        Inl name \<Rightarrow> (Inl name, w)
      | Inr n \<Rightarrow>
          (let ms = [next_track w ..< next_track w + n]
           in (Inr ms, w\<lparr>events := events w @ [Grant ms],
                          live := live w @ ms,
                          next_track := next_track w + n\<rparr>)))"

subsection \<open>SimpleCameraComponent (App.tsx)\<close>

text \<open>
  A suspended \<open>startCamera\<close> of App.tsx waits for its permission query (and still
  needs the \<open>stream\<close> and \<open>facingMode\<close> of its render), or for its stream request.
\<close>

datatype App_task =
    App_awaits_query nat component
  | App_awaits_stream nat MediaStreamConstraints

definition stop_and_disable_all :: "MediaStream option \<Rightarrow> world \<Rightarrow> world" where
  "stop_and_disable_all st w =
     (case st of None \<Rightarrow> w | Some ms \<Rightarrow> fold stop_and_disable ms w)"

fun App_startCamera_begin ::
  "host \<Rightarrow> component \<Rightarrow> component \<times> world \<Rightarrow> (component \<times> world) \<times> App_task option" where
  "App_startCamera_begin h snap (s, w) =
     (if \<not> hasCamera h
      then ((s\<lparr>error := ''Camera not supported on this device''\<rparr>, w), None)
      else ((s\<lparr>isLoading := True, error := ''''\<rparr>, w\<lparr>events := events w @ [Query]\<rparr>),
            Some (App_awaits_query (nquery w) snap)))"

fun App_resume ::
  "host \<Rightarrow> App_task \<Rightarrow> component \<times> world \<Rightarrow> (component \<times> world) \<times> App_task option" where
  "App_resume h (App_awaits_query k snap) (s, w) =
     (case permissions_query h k of
        Inl name \<Rightarrow> (((App_catch name s)\<lparr>isLoading := False\<rparr>, w), None)
      | Inr state \<Rightarrow>
          let s2 = s\<lparr>permissions := state\<rparr> in
          if state = denied then
            ((s2\<lparr>error := ''Camera access denied. Please allow camera permissions.'',
                 isLoading := False\<rparr>, w), None)
          else
            let constraints = App_getConstraints (facingMode snap);
                (n, w3) = request_stream constraints (stop_and_disable_all (stream snap) w)
            in ((s2, w3), Some (App_awaits_stream n constraints)))"
| "App_resume h (App_awaits_stream k constraints) (s, w) =
     (case settle_stream h k constraints w of
        (Inl name, w3) \<Rightarrow> (((App_catch name s)\<lparr>isLoading := False\<rparr>, w3), None)
      | (Inr mediaStream, w3) \<Rightarrow>
          let s3 = s\<lparr>stream := Some mediaStream, isActive := True, permissions := granted\<rparr>
          in
          (case videoRef w3 of
             None \<Rightarrow> ((s3\<lparr>isLoading := False\<rparr>, w3), None)
           | Some src \<Rightarrow>
               let w4 = w3\<lparr>videoRef := Some (Some mediaStream)\<rparr> in
               if play_reply h (nreq w3) then ((s3\<lparr>isLoading := False\<rparr>, w4), None)
               else ((s3\<lparr>isLoading := False,
                         error := ''Failed to play video stream.''\<rparr>, w4), None)))"

fun App_switchCamera_begin ::
  "host \<Rightarrow> component \<Rightarrow> component \<times> world \<Rightarrow> (component \<times> world) \<times> App_task option" where
  "App_switchCamera_begin h snap (s, w) =
     (let newFacingMode = (if facingMode snap = user then environment else user);
          s1 = s\<lparr>facingMode := newFacingMode\<rparr>
      in if isActive snap then App_startCamera_begin h snap (s1, w) else ((s1, w), None))"

text \<open>A call carried through its \<^verbatim>\<open>await\<close>s with nothing in between.\<close>

fun App_finish ::
  "host \<Rightarrow> (component \<times> world) \<times> App_task option \<Rightarrow> component \<times> world" where
  "App_finish h (sw, None) = sw"
| "App_finish h (sw, Some t) =
     (case App_resume h t sw of
        (sw1, None) \<Rightarrow> sw1
      | (sw1, Some t1) \<Rightarrow> fst (App_resume h t1 sw1))"

subsection \<open>CameraComponent (second file)\<close>

datatype Cam_task =
    Cam_awaits_stream nat MediaStreamConstraints
  | Cam_awaits_fallback nat

fun Cam_startCamera_begin ::
  "host \<Rightarrow> component \<Rightarrow> component \<times> world \<Rightarrow> (component \<times> world) \<times> Cam_task option" where
  "Cam_startCamera_begin h snap (s, w) =
     (if \<not> hasCamera h
      then ((s\<lparr>error := ''Camera not supported on this device''\<rparr>, w), None)
      else
        let constraints = Cam_getConstraints (facingMode snap);
            (n, w2) = request_stream constraints (cleanup (stream snap) w)
        in ((s\<lparr>isLoading := True, error := ''''\<rparr>, w2),
            Some (Cam_awaits_stream n constraints)))"

fun Cam_resume ::
  "host \<Rightarrow> Cam_task \<Rightarrow> component \<times> world \<Rightarrow> (component \<times> world) \<times> Cam_task option" where
  "Cam_resume h (Cam_awaits_stream k constraints) (s, w) =
     (case settle_stream h k constraints w of
        (Inr mediaStream, w2) \<Rightarrow>
          ((s\<lparr>stream := Some mediaStream, isActive := True, permissions := granted,
               isLoading := False\<rparr>,
            set_srcObject (Some mediaStream) w2), None)
      | (Inl name, w2) \<Rightarrow>
          if name = ''NotAllowedError'' then
            ((s\<lparr>error := ''Camera access denied. Please allow camera permissions.'',
                 permissions := denied, isLoading := False\<rparr>, w2), None)
          else if name = ''NotFoundError'' then
            ((s\<lparr>error := ''No camera found on this device.'', isLoading := False\<rparr>, w2),
             None)
          else if name = ''NotReadableError'' then
            ((s\<lparr>error := ''Camera is already in use by another application.'',
                 isLoading := False\<rparr>, w2), None)
          else if name = ''OverconstrainedError'' then
            (let s2 = s\<lparr>error :=
                        ''Camera constraints not supported. Trying basic settings...''\<rparr>;
                 (n, w3) = request_stream basicConstraints w2
             in ((s2, w3), Some (Cam_awaits_fallback n)))
          else
            ((s\<lparr>error := ''Unable to access camera. Please try again.'',
                 isLoading := False\<rparr>, w2), None))"
| "Cam_resume h (Cam_awaits_fallback k) (s, w) =
     (case settle_stream h k basicConstraints w of
        (Inr basicStream, w3) \<Rightarrow>
          ((s\<lparr>stream := Some basicStream, isActive := True, error := '''',
               isLoading := False\<rparr>,
            set_srcObject (Some basicStream) w3), None)
      | (Inl basicErr, w3) \<Rightarrow>
          ((s\<lparr>error := ''Unable to access camera with any settings.'',
               isLoading := False\<rparr>, w3), None))"

fun Cam_switchCamera_begin ::
  "host \<Rightarrow> component \<Rightarrow> component \<times> world \<Rightarrow> (component \<times> world) \<times> Cam_task option" where
  "Cam_switchCamera_begin h snap (s, w) =
     (let newFacingMode = (if facingMode snap = user then environment else user);
          s1 = s\<lparr>facingMode := newFacingMode\<rparr>
      in if isActive snap then Cam_startCamera_begin h snap (s1, w) else ((s1, w), None))"

text \<open>
  The first-interaction listener. Its closure is the render in which its effect last
  ran: the guard reads \<open>isActive\<close>, \<open>isLoading\<close> and \<open>permissions\<close> of that render and
  calls that render's \<open>startCamera\<close>.
\<close>

fun handleUserInteraction ::
  "host \<Rightarrow> component \<Rightarrow> component \<times> world \<Rightarrow> (component \<times> world) \<times> Cam_task option" where
  "handleUserInteraction h snap (s, w) =
     (if \<not> isActive snap \<and> \<not> isLoading snap \<and> permissions snap \<noteq> denied
      then Cam_startCamera_begin h snap (s, w) else ((s, w), None))"

fun Cam_finish ::
  "host \<Rightarrow> (component \<times> world) \<times> Cam_task option \<Rightarrow> component \<times> world" where
  "Cam_finish h (sw, None) = sw"
| "Cam_finish h (sw, Some t) =
     (case Cam_resume h t sw of
        (sw1, None) \<Rightarrow> sw1
      | (sw1, Some t1) \<Rightarrow> fst (Cam_resume h t1 sw1))"

subsection \<open>The mounted component\<close>

text \<open>
  A mounted component is the state of its last committed render, whose closures the
  buttons call; the state its setters have written since; the host world; the
  suspended calls; and, in CameraComponent, the render whose closure the
  first-interaction listener holds (\<open>None\<close> once the listener has fired and removed
  itself).
\<close>

record 't mounted =
  rendered :: component
  written :: component
  host_world :: world
  in_flight :: "'t list"
  listener :: "component option"

text \<open>
  What can happen to it: a click on Start or Switch, a first click, touch or key press
  reaching the document listener, the host settling the \<open>i\<close>-th suspended call, and
  React committing a render.
\<close>

datatype input = Start | Switch | Interaction | Settle nat | Render

text \<open>
  The view offers Start while \<open>isActive\<close> is false and disables it while \<open>isLoading\<close>
  is true; it offers Switch while \<open>isActive\<close> is true and never disables it.
\<close>

fun offered :: "input \<Rightarrow> component \<Rightarrow> bool" where
  "offered Start r = (\<not> isActive r \<and> \<not> isLoading r)"
| "offered Switch r = isActive r"
| "offered i r = True"

definition suspend :: "'t option \<Rightarrow> 't list \<Rightarrow> 't list" where
  "suspend t ts = (case t of None \<Rightarrow> ts | Some t' \<Rightarrow> ts @ [t'])"

definition resumed :: "nat \<Rightarrow> 't option \<Rightarrow> 't list \<Rightarrow> 't list" where
  "resumed i t ts = (case t of None \<Rightarrow> take i ts @ drop (Suc i) ts | Some t' \<Rightarrow> ts[i := t'])"

text \<open>
  Committing a render: the written state becomes the rendered one; the cleanup of the
  \<^verbatim>\<open>[stream]\<close> effect runs with the old stream when the stream has changed; the video
  element exists exactly while the rendered \<open>isActive\<close> is true. The setter calls of
  one handler or continuation are committed together.
\<close>

definition mount_video :: "bool \<Rightarrow> world \<Rightarrow> world" where
  "mount_video active w =
     w\<lparr>videoRef := (if active
                     then (case videoRef w of None \<Rightarrow> Some None | Some src \<Rightarrow> Some src)
                     else None)\<rparr>"

definition commit :: "'t mounted \<Rightarrow> 't mounted" where
  "commit y =
     y\<lparr>rendered := written y,
       host_world :=
         mount_video (isActive (written y))
           (if stream (rendered y) \<noteq> stream (written y)
            then cleanup (stream (rendered y)) (host_world y) else host_world y)\<rparr>"

text \<open>
  The listener effect has the dependencies \<^verbatim>\<open>[isActive, isLoading, permissions]\<close>: a
  commit that changes one of them replaces the listener by one of the new render, any
  other commit leaves the listener as it is.
\<close>

definition Cam_commit :: "Cam_task mounted \<Rightarrow> Cam_task mounted" where
  "Cam_commit y =
     (commit y)\<lparr>listener :=
        (if isActive (written y) \<noteq> isActive (rendered y)
            \<or> isLoading (written y) \<noteq> isLoading (rendered y)
            \<or> permissions (written y) \<noteq> permissions (rendered y)
         then Some (written y) else listener y)\<rparr>"

fun App_react :: "host \<Rightarrow> input \<Rightarrow> App_task mounted \<Rightarrow> App_task mounted" where
  "App_react h Start y =
     (case App_startCamera_begin h (rendered y) (written y, host_world y) of
        ((s, w), t) \<Rightarrow> y\<lparr>written := s, host_world := w, in_flight := suspend t (in_flight y)\<rparr>)"
| "App_react h Switch y =
     (case App_switchCamera_begin h (rendered y) (written y, host_world y) of
        ((s, w), t) \<Rightarrow> y\<lparr>written := s, host_world := w, in_flight := suspend t (in_flight y)\<rparr>)"
| "App_react h Interaction y = y"
| "App_react h (Settle i) y =
     (if i < length (in_flight y) then
        (case App_resume h (in_flight y ! i) (written y, host_world y) of
           ((s, w), t) \<Rightarrow>
             y\<lparr>written := s, host_world := w, in_flight := resumed i t (in_flight y)\<rparr>)
      else y)"
| "App_react h Render y = commit y"

fun Cam_react :: "host \<Rightarrow> input \<Rightarrow> Cam_task mounted \<Rightarrow> Cam_task mounted" where
  "Cam_react h Start y =
     (case Cam_startCamera_begin h (rendered y) (written y, host_world y) of
        ((s, w), t) \<Rightarrow> y\<lparr>written := s, host_world := w, in_flight := suspend t (in_flight y)\<rparr>)"
| "Cam_react h Switch y =
     (case Cam_switchCamera_begin h (rendered y) (written y, host_world y) of
        ((s, w), t) \<Rightarrow> y\<lparr>written := s, host_world := w, in_flight := suspend t (in_flight y)\<rparr>)"
| "Cam_react h Interaction y =
     (case listener y of
        None \<Rightarrow> y
      | Some snap \<Rightarrow>
          (case handleUserInteraction h snap (written y, host_world y) of
             ((s, w), t) \<Rightarrow>
               y\<lparr>written := s, host_world := w, in_flight := suspend t (in_flight y),
                 listener := None\<rparr>))"
| "Cam_react h (Settle i) y =
     (if i < length (in_flight y) then
        (case Cam_resume h (in_flight y ! i) (written y, host_world y) of
           ((s, w), t) \<Rightarrow>
             y\<lparr>written := s, host_world := w, in_flight := resumed i t (in_flight y)\<rparr>)
      else y)"
| "Cam_react h Render y = Cam_commit y"

text \<open>
  The components right after mounting, on a host that has recorded nothing. App.tsx
  registers no document listener. For CameraComponent this is the case in which the
  permission query of the mount effect answers \<open>prompt\<close> or is not available, so that
  the mount effect changes nothing and starts nothing; that effect is not modelled
  further.
\<close>

definition App_mounted :: "App_task mounted" where
  "App_mounted = \<lparr>rendered = initial, written = initial, host_world = fresh_world None,
                   in_flight = [], listener = None\<rparr>"

definition Cam_mounted :: "Cam_task mounted" where
  "Cam_mounted = \<lparr>rendered = initial, written = initial, host_world = fresh_world None,
                   in_flight = [], listener = Some initial\<rparr>"

text \<open>Whether the view offers every input of a run at the moment it arrives.\<close>

fun App_offered_run :: "host \<Rightarrow> input list \<Rightarrow> App_task mounted \<Rightarrow> bool" where
  "App_offered_run h [] y = True"
| "App_offered_run h (i # run) y =
     (offered i (rendered y) \<and> App_offered_run h run (App_react h i y))"

fun Cam_offered_run :: "host \<Rightarrow> input list \<Rightarrow> Cam_task mounted \<Rightarrow> bool" where
  "Cam_offered_run h [] y = True"
| "Cam_offered_run h (i # run) y =
     (offered i (rendered y) \<and> Cam_offered_run h run (Cam_react h i y))"

subsection \<open>Two clicks on Switch\<close>

text \<open>
  The user starts the camera (in App.tsx with the Start button, in CameraComponent with
  a first key press, which the document listener turns into \<open>startCamera\<close>), the host
  answers, React renders the active session. Then the user clicks Switch, and React
  renders the loading state while the host has not answered yet. A click reaches the
  document listener of CameraComponent as well.
\<close>

definition App_first_switch :: "input list" where
  "App_first_switch = [Start, Settle 0, Settle 0, Render, Switch, Render]"

definition Cam_first_switch :: "input list" where
  "Cam_first_switch = [Interaction, Settle 0, Render, Switch, Interaction, Render]"

text \<open>
  The user clicks Switch again, and then the host answers what is pending, the calls of
  the first click before those of the second.
\<close>

definition App_second_switch :: "input list" where
  "App_second_switch = [Switch, Settle 0, Settle 1, Settle 0, Settle 0]"

definition Cam_second_switch :: "input list" where
  "Cam_second_switch = [Switch, Interaction, Settle 0, Settle 0]"

declare App_startCamera_begin.simps [simp del]
declare App_resume.simps [simp del]
declare App_switchCamera_begin.simps [simp del]
declare Cam_startCamera_begin.simps [simp del]
declare Cam_resume.simps [simp del]
declare Cam_switchCamera_begin.simps [simp del]
declare handleUserInteraction.simps [simp del]
declare App_react.simps [simp del]
declare Cam_react.simps [simp del]

section \<open>Stopping the tracks of a stream\<close>

lemma events_fold_stop [simp]: "events (fold stop ms w) = events w @ map Stop ms"
  by (induction ms arbitrary: w) (simp_all add: stop_def)

lemma live_fold_stop [simp]: "live (fold stop ms w) = filter (\<lambda>t. t \<notin> set ms) (live w)"
  by (induction ms arbitrary: w)
     (simp_all add: stop_def removeAll_filter_not_eq conj_commute eq_commute)

lemma next_track_fold_stop [simp]: "next_track (fold stop ms w) = next_track w"
  by (induction ms arbitrary: w) (simp_all add: stop_def)

lemma videoRef_fold_stop [simp]: "videoRef (fold stop ms w) = videoRef w"
  by (induction ms arbitrary: w) (simp_all add: stop_def)

lemma disabled_fold_stop [simp]: "disabled (fold stop ms w) = disabled w"
  by (induction ms arbitrary: w) (simp_all add: stop_def)

lemma events_fold_stop_and_disable [simp]:
  "events (fold stop_and_disable ms w) = events w @ map Stop ms"
  by (induction ms arbitrary: w) (simp_all add: stop_and_disable_def stop_def)

lemma live_fold_stop_and_disable [simp]:
  "live (fold stop_and_disable ms w) = filter (\<lambda>t. t \<notin> set ms) (live w)"
  by (induction ms arbitrary: w)
     (simp_all add: stop_and_disable_def stop_def removeAll_filter_not_eq conj_commute
        eq_commute)

lemma next_track_fold_stop_and_disable [simp]:
  "next_track (fold stop_and_disable ms w) = next_track w"
  by (induction ms arbitrary: w) (simp_all add: stop_and_disable_def stop_def)

lemma videoRef_fold_stop_and_disable [simp]:
  "videoRef (fold stop_and_disable ms w) = videoRef w"
  by (induction ms arbitrary: w) (simp_all add: stop_and_disable_def stop_def)

lemma filter_isRequest_Stop [simp]: "filter isRequest (map Stop ms) = []"
  by (induction ms) simp_all

lemma filter_isGrant_Stop [simp]: "filter isGrant (map Stop ms) = []"
  by (induction ms) simp_all

lemma filter_isQuery_Stop [simp]: "filter isQuery (map Stop ms) = []"
  by (induction ms) simp_all

lemma nreq_fold_stop [simp]: "nreq (fold stop ms w) = nreq w"
  by (simp add: nreq_def)

lemma nreq_fold_stop_and_disable [simp]: "nreq (fold stop_and_disable ms w) = nreq w"
  by (simp add: nreq_def)

lemma requests_append [simp]: "requests (es @ fs) = requests es @ requests fs"
  by (induction es rule: requests.induct) simp_all

lemma requests_Stop [simp]: "requests (map Stop ms) = []"
  by (induction ms) simp_all

lemma stops_append [simp]: "stops (es @ fs) = stops es @ stops fs"
  by (induction es rule: stops.induct) simp_all

lemma stops_Stop [simp]: "stops (map Stop ms) = ms"
  by (induction ms) simp_all

lemma new_events_append [simp]:
  "events w' = events w @ es \<Longrightarrow> new_events w w' = es"
  by (simp add: new_events_def)

text \<open>The equations that evaluate the operations on a concrete host, state and world.\<close>

lemmas run_defs =
  App_startCamera_def App_startCamera_in.simps App_stopCamera.simps App_switchCamera.simps
  App_unmount_def App_getConstraints_def App_catch_def
  Cam_startCamera_def Cam_startCamera_in.simps Cam_stopCamera.simps Cam_switchCamera.simps
  Cam_unmount_def Cam_getConstraints_def basicConstraints_def
  Mini_unmount_def cleanup_def set_srcObject_def
  getUserMedia_def query_def stop_def stop_and_disable_def nreq_def nquery_def
  new_events_def toggle_def initial_def fresh_world_def Let_def

lemmas input_defs =
  granting_host_def rejecting_host_def querying_host_def overconstrained_host_def
  no_camera_host_def query_throwing_host_def
  fallback_denied_host_def active_front_def idle_with_error_def

section \<open>The paths through \<open>startCamera\<close>\<close>

lemma cleanup_simps [simp]:
  "events (cleanup st w) = events w @ map Stop (tracks st)"
  "live (cleanup st w) = filter (\<lambda>t. t \<notin> set (tracks st)) (live w)"
  "next_track (cleanup st w) = next_track w"
  "videoRef (cleanup st w) = videoRef w"
  "disabled (cleanup st w) = disabled w"
  "nreq (cleanup st w) = nreq w"
  by (cases st; simp add: cleanup_def)+

text \<open>The stop loop at the head of App.tsx's \<open>startCamera\<close> and \<open>stopCamera\<close>.\<close>

lemma stop_and_disable_loop [simp]:
  "events (case st of None \<Rightarrow> w | Some ms \<Rightarrow> fold stop_and_disable ms w)
     = events w @ map Stop (tracks st)"
  "live (case st of None \<Rightarrow> w | Some ms \<Rightarrow> fold stop_and_disable ms w)
     = filter (\<lambda>t. t \<notin> set (tracks st)) (live w)"
  "next_track (case st of None \<Rightarrow> w | Some ms \<Rightarrow> fold stop_and_disable ms w)
     = next_track w"
  "videoRef (case st of None \<Rightarrow> w | Some ms \<Rightarrow> fold stop_and_disable ms w)
     = videoRef w"
  "nreq (case st of None \<Rightarrow> w | Some ms \<Rightarrow> fold stop_and_disable ms w) = nreq w"
  by (cases st; simp)+

lemma set_srcObject_simps [simp]:
  "events (set_srcObject src w) = events w"
  "live (set_srcObject src w) = live w"
  "next_track (set_srcObject src w) = next_track w"
  "disabled (set_srcObject src w) = disabled w"
  "nreq (set_srcObject src w) = nreq w"
  by (cases "videoRef w"; simp add: set_srcObject_def nreq_def)+

lemma getUserMedia_Inl:
  assumes "getUserMedia h c w = (Inl name, w')"
  shows "w' = w\<lparr>events := events w @ [Request c]\<rparr>"
    and "getUserMedia_reply h (nreq w) c = Inl name"
  using assms by (auto simp: getUserMedia_def Let_def split: sum.splits)

lemma getUserMedia_Inr:
  assumes "getUserMedia h c w = (Inr ms, w')"
  shows "w' = w\<lparr>events := events w @ [Request c, Grant ms], live := live w @ ms,
                 next_track := next_track w + length ms\<rparr>"
    and "ms = [next_track w ..< next_track w + length ms]"
    and "getUserMedia_reply h (nreq w) c = Inr (length ms)"
  using assms by (auto simp: getUserMedia_def Let_def split: sum.splits)

lemma nreq_Request [simp]:
  "nreq (w\<lparr>events := events w @ [Request c]\<rparr>) = Suc (nreq w)"
  by (simp add: nreq_def)

lemma nreq_Query [simp]: "nreq (w\<lparr>events := events w @ [Query]\<rparr>) = nreq w"
  by (simp add: nreq_def)

lemma App_catch_simps [simp]:
  "stream (App_catch name s) = stream s"
  "isActive (App_catch name s) = isActive s"
  "facingMode (App_catch name s) = facingMode s"
  "isLoading (App_catch name s) = isLoading s"
  "permissions (App_catch name s)
     = (if name = ''NotAllowedError'' then denied else permissions s)"
  by (simp_all add: App_catch_def)

text \<open>
  Every call of CameraComponent's \<open>startCamera\<close> takes one of five paths: no camera
  API; the request granted; the request rejected as over-constrained and the basic
  request granted; both rejected; the request rejected with another error.
\<close>

lemma Cam_startCamera_in_cases:
  obtains
    (unsupported) "\<not> hasCamera h"
      "\<And>s. Cam_startCamera_in h snap (s, w)
         = (s\<lparr>error := ''Camera not supported on this device''\<rparr>, w)"
  | (granted) ms w2 where "hasCamera h"
      "getUserMedia h (Cam_getConstraints (facingMode snap)) (cleanup (stream snap) w)
         = (Inr ms, w2)"
      "\<And>s. Cam_startCamera_in h snap (s, w)
         = (s\<lparr>stream := Some ms, isActive := True, error := '''', isLoading := False,
              permissions := granted\<rparr>, set_srcObject (Some ms) w2)"
  | (fallback_granted) w2 ms w3 where "hasCamera h"
      "getUserMedia h (Cam_getConstraints (facingMode snap)) (cleanup (stream snap) w)
         = (Inl ''OverconstrainedError'', w2)"
      "getUserMedia h basicConstraints w2 = (Inr ms, w3)"
      "\<And>s. Cam_startCamera_in h snap (s, w)
         = (s\<lparr>stream := Some ms, isActive := True, error := '''', isLoading := False\<rparr>,
            set_srcObject (Some ms) w3)"
  | (fallback_rejected) w2 basicErr w3 where "hasCamera h"
      "getUserMedia h (Cam_getConstraints (facingMode snap)) (cleanup (stream snap) w)
         = (Inl ''OverconstrainedError'', w2)"
      "getUserMedia h basicConstraints w2 = (Inl basicErr, w3)"
      "\<And>s. Cam_startCamera_in h snap (s, w)
         = (s\<lparr>error := ''Unable to access camera with any settings.'',
              isLoading := False\<rparr>, w3)"
  | (rejected) name w2 where "hasCamera h" "name \<noteq> ''OverconstrainedError''"
      "getUserMedia h (Cam_getConstraints (facingMode snap)) (cleanup (stream snap) w)
         = (Inl name, w2)"
      "\<And>s. Cam_startCamera_in h snap (s, w)
         = (s\<lparr>error :=
                (if name = ''NotAllowedError''
                 then ''Camera access denied. Please allow camera permissions.''
                 else if name = ''NotFoundError'' then ''No camera found on this device.''
                 else if name = ''NotReadableError''
                 then ''Camera is already in use by another application.''
                 else ''Unable to access camera. Please try again.''),
              permissions := (if name = ''NotAllowedError'' then denied else permissions s),
              isLoading := False\<rparr>, w2)"
proof (cases "hasCamera h")
  case False
  then show ?thesis
    using unsupported by (simp add: Cam_startCamera_in.simps)
next
  case True
  obtain r w2 where first:
    "getUserMedia h (Cam_getConstraints (facingMode snap)) (cleanup (stream snap) w)
       = (r, w2)"
    by (cases "getUserMedia h (Cam_getConstraints (facingMode snap))
                 (cleanup (stream snap) w)")
  have stage: "(case stream snap of None \<Rightarrow> w | Some ms \<Rightarrow> fold stop ms w)
                 = cleanup (stream snap) w"
    by (simp add: cleanup_def)
  show ?thesis
  proof (cases r)
    case (Inr ms)
    with True first stage show ?thesis
      using granted [of ms w2] by (simp add: Cam_startCamera_in.simps)
  next
    case (Inl name)
    show ?thesis
    proof (cases "name = ''OverconstrainedError''")
      case False
      with True first stage Inl show ?thesis
        using rejected [of name w2] by (simp add: Cam_startCamera_in.simps)
    next
      case over: True
      obtain r2 w3 where second: "getUserMedia h basicConstraints w2 = (r2, w3)"
        by (cases "getUserMedia h basicConstraints w2")
      show ?thesis
      proof (cases r2)
        case (Inr ms)
        with True first stage Inl over second show ?thesis
          using fallback_granted [of w2 ms w3] by (simp add: Cam_startCamera_in.simps)
      next
        case basic: (Inl basicErr)
        with True first stage Inl over second show ?thesis
          using fallback_rejected [of w2 basicErr w3]
          by (simp add: Cam_startCamera_in.simps)
      qed
    qed
  qed
qed

text \<open>
  Every call of App.tsx's \<open>startCamera\<close> takes one of five paths: no camera API; the
  permission query throws; the query answers \<open>denied\<close>; the request is rejected; the
  request is granted.
\<close>

lemma App_startCamera_in_cases:
  obtains
    (unsupported) "\<not> hasCamera h"
      "\<And>s. App_startCamera_in h snap (s, w)
         = (s\<lparr>error := ''Camera not supported on this device''\<rparr>, w)"
  | (query_failed) name where "hasCamera h" "permissions_query h (nquery w) = Inl name"
      "\<And>s. App_startCamera_in h snap (s, w)
         = ((App_catch name (s\<lparr>isLoading := True, error := ''''\<rparr>))\<lparr>isLoading := False\<rparr>,
            w\<lparr>events := events w @ [Query]\<rparr>)"
  | (preflight_denied) "hasCamera h" "permissions_query h (nquery w) = Inr denied"
      "\<And>s. App_startCamera_in h snap (s, w)
         = (s\<lparr>error := ''Camera access denied. Please allow camera permissions.'',
              isLoading := False, permissions := denied\<rparr>,
            w\<lparr>events := events w @ [Query]\<rparr>)"
  | (rejected) p name w3 where "hasCamera h" "permissions_query h (nquery w) = Inr p"
      "p \<noteq> denied"
      "getUserMedia h (App_getConstraints (facingMode snap))
         (case stream snap of
            None \<Rightarrow> w\<lparr>events := events w @ [Query]\<rparr>
          | Some ms \<Rightarrow> fold stop_and_disable ms (w\<lparr>events := events w @ [Query]\<rparr>))
         = (Inl name, w3)"
      "\<And>s. App_startCamera_in h snap (s, w)
         = ((App_catch name (s\<lparr>isLoading := True, error := '''', permissions := p\<rparr>))
              \<lparr>isLoading := False\<rparr>, w3)"
  | (granted) p ms w3 message where "hasCamera h"
      "permissions_query h (nquery w) = Inr p" "p \<noteq> denied"
      "getUserMedia h (App_getConstraints (facingMode snap))
         (case stream snap of
            None \<Rightarrow> w\<lparr>events := events w @ [Query]\<rparr>
          | Some ms \<Rightarrow> fold stop_and_disable ms (w\<lparr>events := events w @ [Query]\<rparr>))
         = (Inr ms, w3)"
      "\<And>s. App_startCamera_in h snap (s, w)
         = (s\<lparr>stream := Some ms, isActive := True, error := message, isLoading := False,
              permissions := granted\<rparr>, set_srcObject (Some ms) w3)"
proof (cases "hasCamera h")
  case False
  then show ?thesis
    using unsupported by (simp add: App_startCamera_in.simps)
next
  case True
  show ?thesis
  proof (cases "permissions_query h (nquery w)")
    case (Inl name)
    with True show ?thesis
      using query_failed [of name] by (simp add: App_startCamera_in.simps query_def)
  next
    case (Inr p)
    show ?thesis
    proof (cases "p = denied")
      case True
      with \<open>hasCamera h\<close> Inr show ?thesis
        using preflight_denied by (simp add: App_startCamera_in.simps query_def)
    next
      case False
      let ?w2 = "case stream snap of
                   None \<Rightarrow> w\<lparr>events := events w @ [Query]\<rparr>
                 | Some ms \<Rightarrow> fold stop_and_disable ms (w\<lparr>events := events w @ [Query]\<rparr>)"
      obtain r w3 where req:
        "getUserMedia h (App_getConstraints (facingMode snap)) ?w2 = (r, w3)"
        by (cases "getUserMedia h (App_getConstraints (facingMode snap)) ?w2")
      show ?thesis
      proof (cases r)
        case (Inl name)
        with True Inr False req show ?thesis
          using rejected [of p name w3]
          by (simp add: App_startCamera_in.simps query_def)
      next
        case got: (Inr ms)
        show ?thesis
        proof (cases "videoRef w3")
          case None
          with True Inr False req got show ?thesis
            using granted [of p ms w3 "''''"]
            by (simp add: App_startCamera_in.simps query_def set_srcObject_def)
        next
          case (Some src)
          show ?thesis
          proof (cases "play_reply h (nreq w3)")
            case True
            with \<open>hasCamera h\<close> Inr False req got Some show ?thesis
              using granted [of p ms w3 "''''"]
              by (simp add: App_startCamera_in.simps query_def set_srcObject_def)
          next
            case noplay: False
            with \<open>hasCamera h\<close> Inr False req got Some show ?thesis
              using granted [of p ms w3 "''Failed to play video stream.''"]
              by (simp add: App_startCamera_in.simps query_def set_srcObject_def)
          qed
        qed
      qed
    qed
  qed
qed

text \<open>\<open>startCamera\<close> reads only \<open>stream\<close> and \<open>facingMode\<close> from its render.\<close>

lemma App_startCamera_in_snap:
  assumes "stream snap' = stream snap" and "facingMode snap' = facingMode snap"
  shows "App_startCamera_in h snap' sw = App_startCamera_in h snap sw"
  by (cases sw) (simp only: App_startCamera_in.simps assms)

lemma Cam_startCamera_in_snap:
  assumes "stream snap' = stream snap" and "facingMode snap' = facingMode snap"
  shows "Cam_startCamera_in h snap' sw = Cam_startCamera_in h snap sw"
  by (cases sw) (simp only: Cam_startCamera_in.simps assms)

lemma App_startCamera_pair [simp]:
  "App_startCamera h (s, w) = App_startCamera_in h s (s, w)"
  by (simp add: App_startCamera_def)

lemma Cam_startCamera_pair [simp]:
  "Cam_startCamera h (s, w) = Cam_startCamera_in h s (s, w)"
  by (simp add: Cam_startCamera_def)

section \<open>Calls that do not overlap\<close>

lemma getUserMedia_phases:
  "getUserMedia h c w = settle_stream h (nreq w) c (w\<lparr>events := events w @ [Request c]\<rparr>)"
  by (simp add: getUserMedia_def settle_stream_def Let_def split: sum.splits)

text \<open>
  Begun from its render and carried through its \<^verbatim>\<open>await\<close>s with nothing in between,
  a suspended call is the function of the first sections.
\<close>

lemma Cam_startCamera_in_phases:
  "Cam_finish h (Cam_startCamera_begin h snap (s, w)) = Cam_startCamera_in h snap (s, w)"
proof (cases rule: Cam_startCamera_in_cases [where h = h and snap = snap and w = w])
  case unsupported
  then show ?thesis
    by (simp add: Cam_startCamera_begin.simps)
next
  case (granted ms w2)
  from granted(1,2) show ?thesis
    by (simp add: granted(3) getUserMedia_phases Cam_startCamera_begin.simps
          Cam_resume.simps request_stream_def Let_def)
next
  case (fallback_granted w2 ms w3)
  from fallback_granted(1,2,3) show ?thesis
    by (simp add: fallback_granted(4) getUserMedia_phases Cam_startCamera_begin.simps
          Cam_resume.simps request_stream_def Let_def)
next
  case (fallback_rejected w2 basicErr w3)
  from fallback_rejected(1,2,3) show ?thesis
    by (simp add: fallback_rejected(4) getUserMedia_phases Cam_startCamera_begin.simps
          Cam_resume.simps request_stream_def Let_def)
next
  case (rejected name w2)
  from rejected(1,2,3) show ?thesis
    by (simp add: rejected(4) getUserMedia_phases Cam_startCamera_begin.simps
          Cam_resume.simps request_stream_def Let_def)
qed

lemma App_startCamera_in_phases:
  "App_finish h (App_startCamera_begin h snap (s, w)) = App_startCamera_in h snap (s, w)"
  by (simp add: App_startCamera_in.simps App_startCamera_begin.simps App_resume.simps
        query_def getUserMedia_phases request_stream_def stop_and_disable_all_def Let_def
        split: sum.splits prod.splits option.splits)

lemma Cam_switchCamera_phases:
  "Cam_finish h (Cam_switchCamera_begin h s (s, w)) = Cam_switchCamera h (s, w)"
  by (simp add: Cam_switchCamera.simps Cam_switchCamera_begin.simps Let_def
        Cam_startCamera_in_phases)

lemma App_switchCamera_phases:
  "App_finish h (App_switchCamera_begin h s (s, w)) = App_switchCamera h (s, w)"
  by (simp add: App_switchCamera.simps App_switchCamera_begin.simps Let_def
        App_startCamera_in_phases)

text \<open>The equations that evaluate a run of a mounted component.\<close>

lemmas phase_defs =
  App_startCamera_begin.simps App_resume.simps App_switchCamera_begin.simps
  Cam_startCamera_begin.simps Cam_resume.simps Cam_switchCamera_begin.simps
  handleUserInteraction.simps App_react.simps Cam_react.simps
  request_stream_def settle_stream_def stop_and_disable_all_def suspend_def resumed_def
  mount_video_def commit_def Cam_commit_def App_mounted_def Cam_mounted_def
  App_first_switch_def Cam_first_switch_def App_second_switch_def Cam_second_switch_def
  exclusive_def

section \<open>Failed acquires\<close>




section \<open>Ending a session\<close>







section \<open>One session at a time\<close>

text \<open>
  C3. The claim fails on the code when calls overlap. The user starts the camera and
  clicks Switch twice, the second time before the host has answered the first; the
  view offers every one of these inputs. The second \<open>startCamera\<close> stops the track of
  the stream it finds stored, which the first has stopped already, and issues a request
  of its own. The host grants both requests: the tracks of two streams are live at the
  same time, the second grant arrives while the first is held, and only the second
  stream is stored. The render that follows stops the old track 0 once more and leaves
  track 1 live, and so does unmounting.
\<close>

theorem two_switches_hold_two_grants:
  "App_offered_run granting_host (App_first_switch @ App_second_switch) App_mounted
   \<and> events (host_world (fold (App_react granting_host)
                (App_first_switch @ App_second_switch) App_mounted))
       = [Query, Request (App_getConstraints user), Grant [0],
          Query, Query, Stop 0, Request (App_getConstraints user),
          Stop 0, Request (App_getConstraints environment), Grant [1], Grant [2]]
   \<and> live (host_world (fold (App_react granting_host)
                (App_first_switch @ App_second_switch) App_mounted)) = [1, 2]
   \<and> stream (written (fold (App_react granting_host)
                (App_first_switch @ App_second_switch) App_mounted)) = Some [2]
   \<and> \<not> exclusive (events (host_world (fold (App_react granting_host)
                (App_first_switch @ App_second_switch) App_mounted)))
   \<and> live (host_world (fold (App_react granting_host)
                (App_first_switch @ App_second_switch @ [Render]) App_mounted)) = [1, 2]
   \<and> live (App_unmount
              (rendered (fold (App_react granting_host)
                 (App_first_switch @ App_second_switch @ [Render]) App_mounted),
               host_world (fold (App_react granting_host)
                 (App_first_switch @ App_second_switch @ [Render]) App_mounted))) = [1]
   \<and> Cam_offered_run granting_host (Cam_first_switch @ Cam_second_switch) Cam_mounted
   \<and> events (host_world (fold (Cam_react granting_host)
                (Cam_first_switch @ Cam_second_switch) Cam_mounted))
       = [Request (Cam_getConstraints user), Grant [0],
          Stop 0, Request (Cam_getConstraints user),
          Stop 0, Request (Cam_getConstraints environment), Grant [1], Grant [2]]
   \<and> live (host_world (fold (Cam_react granting_host)
                (Cam_first_switch @ Cam_second_switch) Cam_mounted)) = [1, 2]
   \<and> stream (written (fold (Cam_react granting_host)
                (Cam_first_switch @ Cam_second_switch) Cam_mounted)) = Some [2]
   \<and> \<not> exclusive (events (host_world (fold (Cam_react granting_host)
                (Cam_first_switch @ Cam_second_switch) Cam_mounted)))
   \<and> live (host_world (fold (Cam_react granting_host)
                (Cam_first_switch @ Cam_second_switch @ [Render]) Cam_mounted)) = [1, 2]
   \<and> live (Cam_unmount
              (rendered (fold (Cam_react granting_host)
                 (Cam_first_switch @ Cam_second_switch @ [Render]) Cam_mounted),
               host_world (fold (Cam_react granting_host)
                 (Cam_first_switch @ Cam_second_switch @ [Render]) Cam_mounted))) = [1]"
  by (simp add: run_defs phase_defs input_defs)

section \<open>Switching the facing mode of an active session\<close>

text \<open>
  C4. With a session active on the front camera and a host that grants every request,
  \<open>switchCamera\<close> stops the old track once, issues one stream request, and ends
  active with the stored facing mode \<open>environment\<close>; but the one request it issues
  carries the facing mode \<open>user\<close>, the value of the render in which the handler was
  created, in both components.
\<close>

theorem switchCamera_requests_stale_facing:
  "isActive (fst active_front) \<and> facingMode (fst active_front) = user
   \<and> events (snd (App_switchCamera granting_host active_front))
       = [Query, Stop 0, Request (App_getConstraints user), Grant [1]]
   \<and> events (snd (Cam_switchCamera granting_host active_front))
       = [Stop 0, Request (Cam_getConstraints user), Grant [1]]
   \<and> facingMode (fst (App_switchCamera granting_host active_front)) = environment
   \<and> facingMode (fst (Cam_switchCamera granting_host active_front)) = environment
   \<and> isActive (fst (App_switchCamera granting_host active_front))
   \<and> isActive (fst (Cam_switchCamera granting_host active_front))
   \<and> stream (fst (App_switchCamera granting_host active_front)) = Some [1]
   \<and> stream (fst (Cam_switchCamera granting_host active_front)) = Some [1]
   \<and> App_getConstraints user \<noteq> App_getConstraints environment
   \<and> Cam_getConstraints user \<noteq> Cam_getConstraints environment"
  by (simp add: run_defs input_defs)

section \<open>The over-constrained fallback\<close>

text \<open>
  C5, as amended. In CameraComponent, when the camera API exists and the host rejects
  the first request of a \<open>startCamera\<close> call with \<open>OverconstrainedError\<close>, the call
  issues exactly two requests: the first one and one retry with the basic constraints
  (video \<open>true\<close>, audio \<open>false\<close>, no resolution or facing hint). If the retry is
  rejected too, whatever its error name, the message is the generic
  "Unable to access camera with any settings." and no stream was granted; if it is
  granted, the message is cleared and the granted stream is stored and active.
  In App.tsx there is no retry: an \<open>OverconstrainedError\<close> takes the catch-all branch,
  one request in all, with the message "Unable to access camera. Please try again.".
\<close>

theorem overconstrained_retries_once:
  "(hasCamera h
     \<and> getUserMedia_reply h (nreq w) (Cam_getConstraints (facingMode s))
          = Inl ''OverconstrainedError'' \<longrightarrow>
      requests (new_events w (snd (Cam_startCamera h (s, w))))
        = [Cam_getConstraints (facingMode s), basicConstraints]
      \<and> (\<forall>basicErr. getUserMedia_reply h (Suc (nreq w)) basicConstraints = Inl basicErr \<longrightarrow>
            error (fst (Cam_startCamera h (s, w)))
              = ''Unable to access camera with any settings.''
            \<and> filter isGrant (new_events w (snd (Cam_startCamera h (s, w)))) = [])
      \<and> (\<forall>n. getUserMedia_reply h (Suc (nreq w)) basicConstraints = Inr n \<longrightarrow>
            error (fst (Cam_startCamera h (s, w))) = ''''
            \<and> isActive (fst (Cam_startCamera h (s, w)))
            \<and> stream (fst (Cam_startCamera h (s, w)))
                 = Some [next_track w ..< next_track w + n]))
   \<and> video basicConstraints = VideoBool True \<and> audio basicConstraints = False
   \<and> (hasCamera h \<and> permissions_query h (nquery w) = Inr p \<and> p \<noteq> denied
       \<and> getUserMedia_reply h (nreq w) (App_getConstraints (facingMode s))
            = Inl ''OverconstrainedError'' \<longrightarrow>
        requests (new_events w (snd (App_startCamera h (s, w))))
          = [App_getConstraints (facingMode s)]
        \<and> error (fst (App_startCamera h (s, w)))
            = ''Unable to access camera. Please try again.'')"
proof -
  have cam: "requests (new_events w (snd (Cam_startCamera h (s, w))))
        = [Cam_getConstraints (facingMode s), basicConstraints]
      \<and> (\<forall>basicErr. getUserMedia_reply h (Suc (nreq w)) basicConstraints = Inl basicErr \<longrightarrow>
            error (fst (Cam_startCamera h (s, w)))
              = ''Unable to access camera with any settings.''
            \<and> filter isGrant (new_events w (snd (Cam_startCamera h (s, w)))) = [])
      \<and> (\<forall>n. getUserMedia_reply h (Suc (nreq w)) basicConstraints = Inr n \<longrightarrow>
            error (fst (Cam_startCamera h (s, w))) = ''''
            \<and> isActive (fst (Cam_startCamera h (s, w)))
            \<and> stream (fst (Cam_startCamera h (s, w)))
                 = Some [next_track w ..< next_track w + n])"
    if hyp: "hasCamera h \<and> getUserMedia_reply h (nreq w) (Cam_getConstraints (facingMode s))
          = Inl ''OverconstrainedError''"
  proof (cases rule: Cam_startCamera_in_cases [where h = h and snap = s and w = w])
    case unsupported
    with hyp show ?thesis by simp
  next
    case (granted ms w2)
    from granted(2) hyp show ?thesis
      by (auto dest!: getUserMedia_Inr(3))
  next
    case (rejected name w2)
    from rejected(2,3) hyp show ?thesis
      by (auto dest!: getUserMedia_Inl(2))
  next
    case (fallback_granted w2 ms w3)
    note first = getUserMedia_Inl [OF fallback_granted(2)]
    note second = getUserMedia_Inr [OF fallback_granted(3)]
    from second(2) have ms: "ms = [next_track w ..< next_track w + length ms]"
      by (simp add: first(1) nreq_def)
    from second(3) have reply: "getUserMedia_reply h (Suc (nreq w)) basicConstraints
                                  = Inr (length ms)"
      by (simp add: first(1) nreq_def)
    have ev: "new_events w (snd (Cam_startCamera h (s, w)))
                = map Stop (tracks (stream s))
                  @ [Request (Cam_getConstraints (facingMode s)),
                     Request basicConstraints, Grant ms]"
      by (simp add: fallback_granted(4) second(1) first(1) new_events_def)
    show ?thesis
      using ms reply ev by (auto simp: fallback_granted(4))
  next
    case (fallback_rejected w2 basicErr w3)
    note first = getUserMedia_Inl [OF fallback_rejected(2)]
    note second = getUserMedia_Inl [OF fallback_rejected(3)]
    from second(2) have reply: "getUserMedia_reply h (Suc (nreq w)) basicConstraints
                                  = Inl basicErr"
      by (simp add: first(1) nreq_def)
    have ev: "new_events w (snd (Cam_startCamera h (s, w)))
                = map Stop (tracks (stream s))
                  @ [Request (Cam_getConstraints (facingMode s)),
                     Request basicConstraints]"
      by (simp add: fallback_rejected(4) second(1) first(1) new_events_def)
    show ?thesis
      using reply ev by (auto simp: fallback_rejected(4))
  qed
  have basic: "video basicConstraints = VideoBool True \<and> audio basicConstraints = False"
    by (simp add: basicConstraints_def)
  have app: "requests (new_events w (snd (App_startCamera h (s, w))))
          = [App_getConstraints (facingMode s)]
        \<and> error (fst (App_startCamera h (s, w)))
            = ''Unable to access camera. Please try again.''"
    if hyp: "hasCamera h \<and> permissions_query h (nquery w) = Inr p \<and> p \<noteq> denied
       \<and> getUserMedia_reply h (nreq w) (App_getConstraints (facingMode s))
            = Inl ''OverconstrainedError''"
  proof (cases rule: App_startCamera_in_cases [where h = h and snap = s and w = w])
    case (rejected q name w3)
    note req = getUserMedia_Inl [OF rejected(4)]
    from req(2) hyp have name: "name = ''OverconstrainedError''"
      by simp
    have ev: "new_events w (snd (App_startCamera h (s, w)))
                = Query # map Stop (tracks (stream s))
                  @ [Request (App_getConstraints (facingMode s))]"
      by (simp add: rejected(5) req(1) new_events_def)
    show ?thesis
      using ev by (simp add: rejected(5) name App_catch_def)
  next
    case (granted q ms w3 message)
    from getUserMedia_Inr(3) [OF granted(4)] hyp show ?thesis
      by simp
  qed (use hyp in simp_all)
  show ?thesis
    using cam basic app by blast
qed

theorem overconstrained_retries_once_witness:
  "hasCamera (rejecting_host ''OverconstrainedError'')
   \<and> getUserMedia_reply (rejecting_host ''OverconstrainedError'') (nreq (fresh_world None))
        (Cam_getConstraints (facingMode initial)) = Inl ''OverconstrainedError''
   \<and> requests (events (snd (Cam_startCamera (rejecting_host ''OverconstrainedError'')
                               (initial, fresh_world None))))
        = [Cam_getConstraints user, basicConstraints]
   \<and> error (fst (Cam_startCamera (rejecting_host ''OverconstrainedError'')
                    (initial, fresh_world None)))
        = ''Unable to access camera with any settings.''
   \<and> stream (fst (Cam_startCamera overconstrained_host (initial, fresh_world None)))
        = Some [0]
   \<and> requests (events (snd (Cam_startCamera overconstrained_host
                               (initial, fresh_world None))))
        = [Cam_getConstraints user, basicConstraints]
   \<and> permissions_query (rejecting_host ''OverconstrainedError'')
        (nquery (fresh_world None)) = Inr prompt
   \<and> requests (events (snd (App_startCamera (rejecting_host ''OverconstrainedError'')
                               (initial, fresh_world None))))
        = [App_getConstraints user]"
  using overconstrained_retries_once
      [of "rejecting_host ''OverconstrainedError''" "fresh_world None" initial prompt]
    overconstrained_retries_once
      [of overconstrained_host "fresh_world None" initial prompt]
  by (simp add: run_defs input_defs)

text \<open>
  The claim as stated fails in App.tsx: the host rejects the request with
  \<open>OverconstrainedError\<close> and the call ends after that single request.
\<close>

theorem App_startCamera_no_retry:
  "getUserMedia_reply (rejecting_host ''OverconstrainedError'') 0
       (App_getConstraints user) = Inl ''OverconstrainedError''
   \<and> events (snd (App_startCamera (rejecting_host ''OverconstrainedError'')
                     (initial, fresh_world None)))
       = [Query, Request (App_getConstraints user)]
   \<and> error (fst (App_startCamera (rejecting_host ''OverconstrainedError'')
                    (initial, fresh_world None)))
       = ''Unable to access camera. Please try again.''"
  by (simp add: run_defs input_defs)

section \<open>The loading flag\<close>

lemma App_startCamera_in_isLoading:
  "snd (App_startCamera_in h snap (s\<lparr>isLoading := b\<rparr>, w))
     = snd (App_startCamera_in h snap (s, w))
   \<and> (fst (App_startCamera_in h snap (s\<lparr>isLoading := b\<rparr>, w)))\<lparr>isLoading := c\<rparr>
     = (fst (App_startCamera_in h snap (s, w)))\<lparr>isLoading := c\<rparr>"
  by (cases rule: App_startCamera_in_cases [where h = h and snap = snap and w = w])
     (simp_all add: App_catch_def)

lemma Cam_startCamera_in_isLoading:
  "snd (Cam_startCamera_in h snap (s\<lparr>isLoading := b\<rparr>, w))
     = snd (Cam_startCamera_in h snap (s, w))
   \<and> (fst (Cam_startCamera_in h snap (s\<lparr>isLoading := b\<rparr>, w)))\<lparr>isLoading := c\<rparr>
     = (fst (Cam_startCamera_in h snap (s, w)))\<lparr>isLoading := c\<rparr>"
  by (cases rule: Cam_startCamera_in_cases [where h = h and snap = snap and w = w])
     simp_all

text \<open>
  Neither \<open>startCamera\<close> reads \<open>isLoading\<close>, in its render or in the written state:
  with the flag set anywhere, the host calls and the state it leaves, the flag apart,
  are the same.
\<close>

lemma startCamera_never_reads_isLoading:
  "snd (App_startCamera_in h (snap\<lparr>isLoading := a\<rparr>) (s\<lparr>isLoading := b\<rparr>, w))
     = snd (App_startCamera_in h snap (s, w))
   \<and> (fst (App_startCamera_in h (snap\<lparr>isLoading := a\<rparr>) (s\<lparr>isLoading := b\<rparr>, w)))
        \<lparr>isLoading := c\<rparr>
     = (fst (App_startCamera_in h snap (s, w)))\<lparr>isLoading := c\<rparr>
   \<and> snd (Cam_startCamera_in h (snap\<lparr>isLoading := a\<rparr>) (s\<lparr>isLoading := b\<rparr>, w))
     = snd (Cam_startCamera_in h snap (s, w))
   \<and> (fst (Cam_startCamera_in h (snap\<lparr>isLoading := a\<rparr>) (s\<lparr>isLoading := b\<rparr>, w)))
        \<lparr>isLoading := c\<rparr>
     = (fst (Cam_startCamera_in h snap (s, w)))\<lparr>isLoading := c\<rparr>"
proof -
  have app_snap: "App_startCamera_in h (snap\<lparr>isLoading := a\<rparr>) sw
                    = App_startCamera_in h snap sw" for sw
    by (rule App_startCamera_in_snap) simp_all
  have cam_snap: "Cam_startCamera_in h (snap\<lparr>isLoading := a\<rparr>) sw
                    = Cam_startCamera_in h snap sw" for sw
    by (rule Cam_startCamera_in_snap) simp_all
  show ?thesis
    using App_startCamera_in_isLoading
        [where h = h and snap = snap and s = s and b = b and w = w and c = c]
      Cam_startCamera_in_isLoading
        [where h = h and snap = snap and s = s and b = b and w = w and c = c]
    by (simp add: app_snap cam_snap)
qed

text \<open>
  C6. The claim fails on the code. The session is active, the user has clicked Switch,
  and React has rendered \<open>isLoading = true\<close> while the host has not answered; in that
  render the view still offers Switch. The second click is neither rejected nor
  queued. In CameraComponent it at once calls \<open>stop()\<close> on the stored track and issues
  a second stream request; in App.tsx it at once issues its permission query and, when
  that is answered, the \<open>stop()\<close> and the second stream request, the first call still
  waiting for its own query. Two calls are then in flight.

  The sibling entry points are guarded by the flag: after a first Start, the view does
  not offer Start while \<open>isLoading\<close> is rendered, and after a first key press the
  document listener of the loading render does nothing on the next one.
\<close>

theorem switch_while_loading_is_not_rejected:
  "isLoading (rendered (fold (App_react granting_host) App_first_switch App_mounted))
   \<and> length (in_flight (fold (App_react granting_host) App_first_switch App_mounted)) = 1
   \<and> App_offered_run granting_host (App_first_switch @ [Switch]) App_mounted
   \<and> new_events
         (host_world (fold (App_react granting_host) App_first_switch App_mounted))
         (host_world (fold (App_react granting_host) (App_first_switch @ [Switch])
                        App_mounted))
       = [Query]
   \<and> new_events
         (host_world (fold (App_react granting_host) App_first_switch App_mounted))
         (host_world (fold (App_react granting_host) (App_first_switch @ [Switch, Settle 1])
                        App_mounted))
       = [Query, Stop 0, Request (App_getConstraints environment)]
   \<and> length (in_flight (fold (App_react granting_host)
                 (App_first_switch @ [Switch, Settle 1]) App_mounted)) = 2
   \<and> isLoading (rendered (fold (Cam_react granting_host) Cam_first_switch Cam_mounted))
   \<and> length (in_flight (fold (Cam_react granting_host) Cam_first_switch Cam_mounted)) = 1
   \<and> Cam_offered_run granting_host (Cam_first_switch @ [Switch]) Cam_mounted
   \<and> new_events
         (host_world (fold (Cam_react granting_host) Cam_first_switch Cam_mounted))
         (host_world (fold (Cam_react granting_host) (Cam_first_switch @ [Switch])
                        Cam_mounted))
       = [Stop 0, Request (Cam_getConstraints environment)]
   \<and> length (in_flight (fold (Cam_react granting_host) (Cam_first_switch @ [Switch])
                 Cam_mounted)) = 2
   \<and> isLoading (rendered (fold (App_react granting_host) [Start, Render] App_mounted))
   \<and> \<not> offered Start (rendered (fold (App_react granting_host) [Start, Render]
                                    App_mounted))
   \<and> isLoading (rendered (fold (Cam_react granting_host) [Interaction, Render]
                             Cam_mounted))
   \<and> \<not> offered Start (rendered (fold (Cam_react granting_host) [Interaction, Render]
                                    Cam_mounted))
   \<and> host_world (fold (Cam_react granting_host) [Interaction, Render, Interaction]
                    Cam_mounted)
       = host_world (fold (Cam_react granting_host) [Interaction, Render] Cam_mounted)
   \<and> length (in_flight (fold (Cam_react granting_host) [Interaction, Render, Interaction]
                 Cam_mounted)) = 1"
  by (simp add: run_defs phase_defs input_defs)

section \<open>The stored permission state\<close>

text \<open>
  C7, as amended. What a \<open>startCamera\<close> call does to \<open>permissions\<close> when the camera
  API exists (without it the call leaves \<open>permissions\<close> alone):

  \<^item> CameraComponent: a granted first request sets \<open>granted\<close>; a first request rejected
    with \<open>NotAllowedError\<close> sets \<open>denied\<close>; a first request rejected with any error other
    than \<open>NotAllowedError\<close> and \<open>OverconstrainedError\<close> leaves it unchanged; and after an
    \<open>OverconstrainedError\<close> a rejected fallback request leaves it unchanged whatever
    the fallback's error name, \<open>NotAllowedError\<close> included.
  \<^item> App.tsx: the answer of the pre-flight query is stored first (\<open>denied\<close> ends the
    call); then a granted request sets \<open>granted\<close>, a request rejected with
    \<open>NotAllowedError\<close> sets \<open>denied\<close>, and a request rejected otherwise leaves the
    queried answer in place. When the query itself throws, \<open>NotAllowedError\<close> sets
    \<open>denied\<close> and any other error leaves \<open>permissions\<close> unchanged.

  Nothing is said here about a granted fallback request.
\<close>

theorem permissions_after_startCamera:
  "(hasCamera h \<longrightarrow>
      (\<forall>n. getUserMedia_reply h (nreq w) (Cam_getConstraints (facingMode s)) = Inr n \<longrightarrow>
           permissions (fst (Cam_startCamera h (s, w))) = granted)
      \<and> (getUserMedia_reply h (nreq w) (Cam_getConstraints (facingMode s))
            = Inl ''NotAllowedError'' \<longrightarrow>
           permissions (fst (Cam_startCamera h (s, w))) = denied)
      \<and> (\<forall>name. getUserMedia_reply h (nreq w) (Cam_getConstraints (facingMode s)) = Inl name
             \<and> name \<noteq> ''NotAllowedError'' \<and> name \<noteq> ''OverconstrainedError'' \<longrightarrow>
           permissions (fst (Cam_startCamera h (s, w))) = permissions s)
      \<and> (\<forall>basicErr. getUserMedia_reply h (nreq w) (Cam_getConstraints (facingMode s))
               = Inl ''OverconstrainedError''
             \<and> getUserMedia_reply h (Suc (nreq w)) basicConstraints = Inl basicErr \<longrightarrow>
           permissions (fst (Cam_startCamera h (s, w))) = permissions s))
   \<and> (hasCamera h \<longrightarrow>
      (\<forall>p. permissions_query h (nquery w) = Inr p \<longrightarrow>
         (p = denied \<longrightarrow> permissions (fst (App_startCamera h (s, w))) = denied)
         \<and> (p \<noteq> denied \<longrightarrow>
              (\<forall>n. getUserMedia_reply h (nreq w) (App_getConstraints (facingMode s)) = Inr n
                 \<longrightarrow> permissions (fst (App_startCamera h (s, w))) = granted)
              \<and> (\<forall>name. getUserMedia_reply h (nreq w) (App_getConstraints (facingMode s))
                     = Inl name \<longrightarrow>
                   permissions (fst (App_startCamera h (s, w)))
                     = (if name = ''NotAllowedError'' then denied else p))))
      \<and> (\<forall>name. permissions_query h (nquery w) = Inl name \<longrightarrow>
           permissions (fst (App_startCamera h (s, w)))
             = (if name = ''NotAllowedError'' then denied else permissions s)))
   \<and> (\<not> hasCamera h \<longrightarrow>
        permissions (fst (Cam_startCamera h (s, w))) = permissions s
        \<and> permissions (fst (App_startCamera h (s, w))) = permissions s)"
proof -
  let ?r = "getUserMedia_reply h (nreq w) (Cam_getConstraints (facingMode s))"
  have cam: "(\<forall>n. ?r = Inr n \<longrightarrow> permissions (fst (Cam_startCamera h (s, w))) = granted)
      \<and> (?r = Inl ''NotAllowedError'' \<longrightarrow>
           permissions (fst (Cam_startCamera h (s, w))) = denied)
      \<and> (\<forall>name. ?r = Inl name
             \<and> name \<noteq> ''NotAllowedError'' \<and> name \<noteq> ''OverconstrainedError'' \<longrightarrow>
           permissions (fst (Cam_startCamera h (s, w))) = permissions s)
      \<and> (\<forall>basicErr. ?r = Inl ''OverconstrainedError''
             \<and> getUserMedia_reply h (Suc (nreq w)) basicConstraints = Inl basicErr \<longrightarrow>
           permissions (fst (Cam_startCamera h (s, w))) = permissions s)"
    if "hasCamera h"
  proof (cases rule: Cam_startCamera_in_cases [where h = h and snap = s and w = w])
    case unsupported
    with that show ?thesis by simp
  next
    case (granted ms w2)
    from getUserMedia_Inr(3) [OF granted(2)] show ?thesis
      by (simp add: granted(3))
  next
    case (rejected name w2)
    from getUserMedia_Inl(2) [OF rejected(3)] rejected(2) show ?thesis
      by (simp add: rejected(4))
  next
    case (fallback_granted w2 ms w3)
    note first = getUserMedia_Inl [OF fallback_granted(2)]
    from getUserMedia_Inr(3) [OF fallback_granted(3)]
    have "getUserMedia_reply h (Suc (nreq w)) basicConstraints = Inr (length ms)"
      by (simp add: first(1) nreq_def)
    with first(2) show ?thesis
      by simp
  next
    case (fallback_rejected w2 basicErr w3)
    from getUserMedia_Inl(2) [OF fallback_rejected(2)] show ?thesis
      by (simp add: fallback_rejected(4))
  qed
  let ?a = "getUserMedia_reply h (nreq w) (App_getConstraints (facingMode s))"
  have app: "(\<forall>p. permissions_query h (nquery w) = Inr p \<longrightarrow>
         (p = denied \<longrightarrow> permissions (fst (App_startCamera h (s, w))) = denied)
         \<and> (p \<noteq> denied \<longrightarrow>
              (\<forall>n. ?a = Inr n \<longrightarrow> permissions (fst (App_startCamera h (s, w))) = granted)
              \<and> (\<forall>name. ?a = Inl name \<longrightarrow>
                   permissions (fst (App_startCamera h (s, w)))
                     = (if name = ''NotAllowedError'' then denied else p))))
      \<and> (\<forall>name. permissions_query h (nquery w) = Inl name \<longrightarrow>
           permissions (fst (App_startCamera h (s, w)))
             = (if name = ''NotAllowedError'' then denied else permissions s))"
    if "hasCamera h"
  proof (cases rule: App_startCamera_in_cases [where h = h and snap = s and w = w])
    case unsupported
    with that show ?thesis by simp
  next
    case (query_failed name)
    then show ?thesis by simp
  next
    case preflight_denied
    then show ?thesis by simp
  next
    case (rejected p name w3)
    from getUserMedia_Inl(2) [OF rejected(4)] rejected(2,3) show ?thesis
      by (simp add: rejected(5))
  next
    case (granted p ms w3 message)
    from getUserMedia_Inr(3) [OF granted(4)] granted(2,3) show ?thesis
      by (simp add: granted(5))
  qed
  have none: "permissions (fst (Cam_startCamera h (s, w))) = permissions s
        \<and> permissions (fst (App_startCamera h (s, w))) = permissions s"
    if "\<not> hasCamera h"
    using that by (simp add: Cam_startCamera_in.simps App_startCamera_in.simps)
  show ?thesis
    using cam app none by blast
qed

theorem permissions_after_startCamera_witness:
  "hasCamera granting_host \<and> hasCamera (rejecting_host ''NotAllowedError'')
   \<and> hasCamera (querying_host granted ''NotReadableError'')
   \<and> permissions (fst (Cam_startCamera granting_host (initial, fresh_world None))) = granted
   \<and> permissions (fst (Cam_startCamera (rejecting_host ''NotAllowedError'')
                          (initial, fresh_world None))) = denied
   \<and> permissions (fst (Cam_startCamera (rejecting_host ''NotReadableError'')
                          (initial, fresh_world None))) = permissions initial
   \<and> permissions (fst (App_startCamera (rejecting_host ''NotAllowedError'')
                          (initial, fresh_world None))) = denied
   \<and> permissions (fst (App_startCamera (querying_host granted ''NotReadableError'')
                          (initial, fresh_world None))) = granted
   \<and> permissions (fst (App_startCamera (querying_host denied ''NotReadableError'')
                          (initial, fresh_world None))) = denied
   \<and> permissions (fst (App_startCamera granting_host (initial, fresh_world None)))
       = granted
   \<and> permissions (fst (Cam_startCamera (rejecting_host ''OverconstrainedError'')
                          (initial, fresh_world None))) = permissions initial
   \<and> permissions (fst (App_startCamera (query_throwing_host ''TypeError'')
                          (initial, fresh_world None))) = permissions initial
   \<and> \<not> hasCamera no_camera_host
   \<and> permissions (fst (App_startCamera no_camera_host (initial, fresh_world None)))
       = permissions initial"
  using permissions_after_startCamera [of granting_host "fresh_world None" initial]
    permissions_after_startCamera
      [of "rejecting_host ''NotAllowedError''" "fresh_world None" initial]
    permissions_after_startCamera
      [of "rejecting_host ''NotReadableError''" "fresh_world None" initial]
    permissions_after_startCamera
      [of "querying_host granted ''NotReadableError''" "fresh_world None" initial]
    permissions_after_startCamera
      [of "querying_host denied ''NotReadableError''" "fresh_world None" initial]
    permissions_after_startCamera
      [of "rejecting_host ''OverconstrainedError''" "fresh_world None" initial]
    permissions_after_startCamera
      [of "query_throwing_host ''TypeError''" "fresh_world None" initial]
    permissions_after_startCamera [of no_camera_host "fresh_world None" initial]
  by (simp add: run_defs input_defs)

text \<open>
  The claim as stated fails in CameraComponent: the first request is rejected as
  over-constrained, the fallback request is rejected with \<open>NotAllowedError\<close>, and
  \<open>permissions\<close> is still \<open>prompt\<close>.
\<close>

theorem fallback_denial_keeps_permissions:
  "getUserMedia_reply fallback_denied_host 1 basicConstraints = Inl ''NotAllowedError''
   \<and> events (snd (Cam_startCamera fallback_denied_host (initial, fresh_world None)))
       = [Request (Cam_getConstraints user), Request basicConstraints]
   \<and> permissions initial = prompt
   \<and> permissions (fst (Cam_startCamera fallback_denied_host (initial, fresh_world None)))
       = prompt"
  by (simp add: run_defs input_defs)

section \<open>Stopping the camera\<close>

text \<open>
  C8, as amended. In both components \<open>stopCamera\<close> is idempotent: state and host world
  after two calls in a row are those after one call. Called when no session is held
  (no stored stream, \<open>isActive\<close> false, nothing bound to the video element),
  \<open>stopCamera\<close> of CameraComponent changes nothing, and \<open>stopCamera\<close> of App.tsx
  changes nothing but the error message, which it clears.
\<close>

theorem stopCamera_idempotent:
  "App_stopCamera (App_stopCamera (s, w)) = App_stopCamera (s, w)
   \<and> Cam_stopCamera (Cam_stopCamera (s, w)) = Cam_stopCamera (s, w)
   \<and> (stream s = None \<and> \<not> isActive s \<and> (videoRef w = None \<or> videoRef w = Some None)
        \<longrightarrow> Cam_stopCamera (s, w) = (s, w)
          \<and> App_stopCamera (s, w) = (s\<lparr>error := ''''\<rparr>, w))"
proof -
  have app: "App_stopCamera (App_stopCamera (s, w)) = App_stopCamera (s, w)"
    by (cases "stream s"; cases "videoRef w") (simp_all add: App_stopCamera.simps)
  have cam: "Cam_stopCamera (Cam_stopCamera (s, w)) = Cam_stopCamera (s, w)"
    by (cases "stream s"; cases "videoRef w")
       (simp_all add: Cam_stopCamera.simps set_srcObject_def)
  have idle: "Cam_stopCamera (s, w) = (s, w) \<and> App_stopCamera (s, w) = (s\<lparr>error := ''''\<rparr>, w)"
    if "stream s = None" "\<not> isActive s" "videoRef w = None \<or> videoRef w = Some None"
    using that by (auto simp: Cam_stopCamera.simps App_stopCamera.simps set_srcObject_def)
  show ?thesis using app cam idle by blast
qed

theorem stopCamera_idempotent_witness:
  "stream (fst idle_with_error) = None \<and> \<not> isActive (fst idle_with_error)
   \<and> videoRef (snd idle_with_error) = None
   \<and> Cam_stopCamera idle_with_error = idle_with_error
   \<and> error (fst (App_stopCamera idle_with_error)) = ''''
   \<and> snd (App_stopCamera idle_with_error) = snd idle_with_error
   \<and> App_stopCamera (App_stopCamera active_front) = App_stopCamera active_front
   \<and> live (snd (App_stopCamera active_front)) = []"
  using stopCamera_idempotent [of "fst idle_with_error" "snd idle_with_error"]
    stopCamera_idempotent [of "fst active_front" "snd active_front"]
  by (simp add: run_defs input_defs)

text \<open>
  The claim as stated fails in App.tsx: with no session held and the message of a failed
  acquire on display, \<open>stopCamera\<close> changes the state.
\<close>

theorem App_stopCamera_not_noop:
  "stream (fst idle_with_error) = None \<and> \<not> isActive (fst idle_with_error)
   \<and> App_stopCamera idle_with_error \<noteq> idle_with_error
   \<and> error (fst idle_with_error) = ''No camera found on this device.''
   \<and> error (fst (App_stopCamera idle_with_error)) = ''''"
  by (simp add: run_defs input_defs)

section \<open>Switching the facing mode without a session\<close>

text \<open>
  Called from a render in which \<open>isActive\<close> is false, \<open>switchCamera\<close> only toggles the
  stored facing mode: every other state field and the whole host world are unchanged.
  A \<open>startCamera\<close> of a render made after that requests the toggled facing mode.
\<close>

lemma switchCamera_inactive_only_toggles:
  assumes "\<not> isActive s"
  shows "App_switchCamera h (s, w) = (s\<lparr>facingMode := toggle (facingMode s)\<rparr>, w)
       \<and> Cam_switchCamera h (s, w) = (s\<lparr>facingMode := toggle (facingMode s)\<rparr>, w)
       \<and> toggle user = environment \<and> toggle environment = user
       \<and> (hasCamera h \<longrightarrow>
            take 1 (requests (new_events w
                      (snd (Cam_startCamera h (Cam_switchCamera h (s, w))))))
              = [\<lparr>video = Hinted (toggle (facingMode s)) (1280, 1920) (720, 1080) (16, 9),
                  audio = False\<rparr>])
       \<and> (hasCamera h \<and> permissions_query h (nquery w) = Inr p \<and> p \<noteq> denied \<longrightarrow>
            requests (new_events w
                      (snd (App_startCamera h (App_switchCamera h (s, w)))))
              = [\<lparr>video = FacingOnly (toggle (facingMode s)), audio = False\<rparr>])"
proof -
  have app: "App_switchCamera h (s, w) = (s\<lparr>facingMode := toggle (facingMode s)\<rparr>, w)"
    using assms by (simp add: App_switchCamera.simps toggle_def)
  have cam: "Cam_switchCamera h (s, w) = (s\<lparr>facingMode := toggle (facingMode s)\<rparr>, w)"
    using assms by (simp add: Cam_switchCamera.simps toggle_def)
  have next_cam: "take 1 (requests (new_events w
                    (snd (Cam_startCamera h (s\<lparr>facingMode := f\<rparr>, w)))))
                  = [\<lparr>video = Hinted f (1280, 1920) (720, 1080) (16, 9), audio = False\<rparr>]"
    if "hasCamera h" for f
  proof (cases rule: Cam_startCamera_in_cases
           [where h = h and snap = "s\<lparr>facingMode := f\<rparr>" and w = w])
    case unsupported
    with that show ?thesis by simp
  next
    case (granted ms w2)
    note req = getUserMedia_Inr [OF granted(2)]
    show ?thesis
      by (simp add: granted(3) req(1) new_events_def Cam_getConstraints_def)
  next
    case (fallback_granted w2 ms w3)
    note first = getUserMedia_Inl [OF fallback_granted(2)]
    note second = getUserMedia_Inr [OF fallback_granted(3)]
    show ?thesis
      by (simp add: fallback_granted(4) second(1) first(1) new_events_def
            Cam_getConstraints_def)
  next
    case (fallback_rejected w2 basicErr w3)
    note first = getUserMedia_Inl [OF fallback_rejected(2)]
    note second = getUserMedia_Inl [OF fallback_rejected(3)]
    show ?thesis
      by (simp add: fallback_rejected(4) second(1) first(1) new_events_def
            Cam_getConstraints_def)
  next
    case (rejected name w2)
    note req = getUserMedia_Inl [OF rejected(3)]
    show ?thesis
      by (simp add: rejected(4) req(1) new_events_def Cam_getConstraints_def)
  qed
  have next_app: "requests (new_events w
                    (snd (App_startCamera h (s\<lparr>facingMode := f\<rparr>, w))))
                  = [\<lparr>video = FacingOnly f, audio = False\<rparr>]"
    if hyp: "hasCamera h" "permissions_query h (nquery w) = Inr p" "p \<noteq> denied" for f
  proof (cases rule: App_startCamera_in_cases
           [where h = h and snap = "s\<lparr>facingMode := f\<rparr>" and w = w])
    case (rejected q name w3)
    note req = getUserMedia_Inl [OF rejected(4)]
    show ?thesis
      by (simp add: rejected(5) req(1) new_events_def App_getConstraints_def)
  next
    case (granted q ms w3 message)
    note req = getUserMedia_Inr [OF granted(4)]
    show ?thesis
      by (simp add: granted(5) req(1) new_events_def App_getConstraints_def)
  qed (use hyp in simp_all)
  show ?thesis
    using app cam next_cam next_app by (simp add: toggle_def)
qed


section \<open>The rejected pre-flight of App.tsx\<close>

text \<open>
  C10. In \<open>SimpleCameraComponent\<close> of App.tsx, when the camera API exists and the
  pre-flight permission query answers \<open>denied\<close>, \<open>startCamera\<close> stores the message and
  \<open>permissions = denied\<close>, clears \<open>isLoading\<close>, and returns: the host records the query
  and nothing else (no stream request, no \<open>stop()\<close>), and the stored stream, the
  \<open>isActive\<close> flag, the live tracks, their \<open>enabled\<close> flags and the video element are
  what they were.
\<close>

theorem App_startCamera_denied_preflight:
  assumes "hasCamera h" and "permissions_query h (nquery w) = Inr denied"
  shows "App_startCamera h (s, w) =
           (s\<lparr>error := ''Camera access denied. Please allow camera permissions.'',
              isLoading := False, permissions := denied\<rparr>,
            w\<lparr>events := events w @ [Query]\<rparr>)
         \<and> stream (fst (App_startCamera h (s, w))) = stream s
         \<and> isActive (fst (App_startCamera h (s, w))) = isActive s
         \<and> live (snd (App_startCamera h (s, w))) = live w
         \<and> disabled (snd (App_startCamera h (s, w))) = disabled w
         \<and> videoRef (snd (App_startCamera h (s, w))) = videoRef w
         \<and> new_events w (snd (App_startCamera h (s, w))) = [Query]"
  using assms
  by (simp add: App_startCamera_def App_startCamera_in.simps query_def)

theorem App_startCamera_denied_preflight_witness:
  "hasCamera (querying_host denied ''NotFoundError'')
   \<and> permissions_query (querying_host denied ''NotFoundError'') (nquery (snd active_front))
       = Inr denied
   \<and> stream (fst (App_startCamera (querying_host denied ''NotFoundError'') active_front))
       = Some [0]
   \<and> isActive (fst (App_startCamera (querying_host denied ''NotFoundError'') active_front))
   \<and> live (snd (App_startCamera (querying_host denied ''NotFoundError'') active_front)) = [0]
   \<and> events (snd (App_startCamera (querying_host denied ''NotFoundError'') active_front))
       = [Query]"
  using App_startCamera_denied_preflight
    [of "querying_host denied ''NotFoundError''" "snd active_front" "fst active_front"]
  by (simp add: querying_host_def active_front_def new_events_def)

end
